theory Spec2Isabelle
  imports Main "HOL-Library.AList"
begin

section \<open>Documents of the store\<close>

text \<open>
  The stores of the API server keep their entities as documents of a MongoDB
  collection. A document is a list of named fields, in order; a field holds a
  scalar or an embedded document. Only the value shapes that the jobs and users
  stores touch are modelled: null, booleans, strings and embedded documents
  (no arrays).
\<close>

datatype bson = BNull | BBool bool | BStr string | BDoc "(string \<times> bson) list"

text \<open>
  A field path in dot notation (\<^verbatim>\<open>worker.jobs.build.status\<close>) is cut at every dot.
  The result is never empty: a string without a dot is a path of one field.
\<close>

fun split_on :: "char \<Rightarrow> string \<Rightarrow> string list" where
  "split_on c [] = [[]]"
| "split_on c (x # xs) =
     (if x = c then [] # split_on c xs
      else (case split_on c xs of
              [] \<Rightarrow> [[x]]
            | w # ws \<Rightarrow> (x # w) # ws))"

definition field_path :: "string \<Rightarrow> string list" where
  "field_path s = split_on (CHR ''.'') s"

text \<open>The server refuses an update path with an empty field name.\<close>

definition valid_field_path :: "string list \<Rightarrow> bool" where
  "valid_field_path p = ([] \<notin> set p)"

text \<open>
  The name of a field is written as a C string: it ends at the first NUL byte, so no name
  with a NUL byte in it is the name of a field.
\<close>

definition cstring :: "string \<Rightarrow> bool" where
  "cstring s = (CHR 0x00 \<notin> set s)"

text \<open>
  Reading the value at a path: None when a name on the way is no C string, or the field
  is absent, or what holds it is no document.
\<close>

fun get_path :: "string list \<Rightarrow> bson \<Rightarrow> bson option" where
  "get_path [] d = Some d"
| "get_path (k # ks) (BDoc fs) =
     (if cstring k then
        (case map_of fs k of None \<Rightarrow> None | Some sub \<Rightarrow> get_path ks sub)
      else None)"
| "get_path (k # ks) d = None"

text \<open>
  The \<^verbatim>\<open>$set\<close> operator at a path: an existing field is replaced in place, an absent
  one is appended, and absent embedded documents on the way are created. It fails (None)
  when a field on the way holds a value that is not a document.
\<close>

fun set_path :: "string list \<Rightarrow> bson \<Rightarrow> bson \<Rightarrow> bson option" where
  "set_path [] v d = Some v"
| "set_path (k # ks) v (BDoc fs) =
     (case set_path ks v (case map_of fs k of None \<Rightarrow> BDoc [] | Some sub \<Rightarrow> sub) of
        None \<Rightarrow> None
      | Some sub' \<Rightarrow> Some (BDoc (AList.update k sub' fs)))"
| "set_path (k # ks) v d = None"

text \<open>Two paths part ways when, after a common prefix, they name different fields.\<close>

fun diverge :: "string list \<Rightarrow> string list \<Rightarrow> bool" where
  "diverge (a # p) (b # q) = (a \<noteq> b \<or> diverge p q)"
| "diverge p q = False"

section \<open>Errors\<close>

text \<open>
  A Go \<^verbatim>\<open>error\<close> result is an \<^typ>\<open>'a option\<close>: None is \<^verbatim>\<open>nil\<close>. The error
  values are those of package \<^verbatim>\<open>meta\<close> that the stores and services return (not
  found with type and id; conflict with type, id and reason; authorization), the write
  exception of the driver, an error made by \<^verbatim>\<open>errors.New\<close>, and an error wrapped by
  \<^verbatim>\<open>errors.Wrapf\<close>: the cause, the format string and its arguments.
\<close>

datatype error =
    ErrNotFound string string
  | ErrConflict string string string
  | ErrAuthorization
  | WriteException string
  | ErrorString string
  | Wrapf error string "string list"

section \<open>The collection interface\<close>

text \<open>
  \<^verbatim>\<open>bson.M{"id": eventID}\<close> is a filter: every named path must hold the given value.
  \<^verbatim>\<open>bson.M{"$set": bson.M{path: value}}\<close> is an update document with the one
  operator the stores use.
\<close>

type_synonym filter_doc = "(string \<times> bson) list"

datatype update = SetOp "(string \<times> bson) list"

record UpdateResult =
  MatchedCount :: int
  ModifiedCount :: int

text \<open>
  \<^verbatim>\<open>mongodb.Collection\<close> is an interface; a store holds one and calls its
  \<^verbatim>\<open>UpdateOne\<close>. The model passes the method as a function over the state
  \<^typ>\<open>'c\<close> of the collection, as the mock collection of the tests does with its
  \<^verbatim>\<open>UpdateOneFn\<close>. The context argument only carries cancellation and is left out.
\<close>

type_synonym 'c UpdateOneFn =
  "'c \<Rightarrow> filter_doc \<Rightarrow> update \<Rightarrow> (error + UpdateResult) \<times> 'c"

definition matches :: "filter_doc \<Rightarrow> bson \<Rightarrow> bool" where
  "matches flt d = list_all (\<lambda>(k, v). get_path (field_path k) d = Some v) flt"

fun apply_set :: "(string \<times> bson) list \<Rightarrow> bson \<Rightarrow> bson option" where
  "apply_set [] d = Some d"
| "apply_set ((p, v) # as) d =
     (case set_path (field_path p) v d of
        None \<Rightarrow> None
      | Some d' \<Rightarrow> apply_set as d')"

text \<open>
  \<^verbatim>\<open>UpdateOne\<close> changes the first document that the filter matches and reports how
  many documents matched (0 or 1).
\<close>

fun update_first ::
  "filter_doc \<Rightarrow> (string \<times> bson) list \<Rightarrow> bson list \<Rightarrow> error + (UpdateResult \<times> bson list)" where
  "update_first flt as [] = Inr (\<lparr>MatchedCount = 0, ModifiedCount = 0\<rparr>, [])"
| "update_first flt as (d # ds) =
     (if matches flt d then
        (case apply_set as d of
           None \<Rightarrow> Inl (WriteException ''cannot create field in element'')
         | Some d' \<Rightarrow>
             Inr (\<lparr>MatchedCount = 1, ModifiedCount = (if d' = d then 0 else 1)\<rparr>, d' # ds))
      else
        (case update_first flt as ds of
           Inl e \<Rightarrow> Inl e
         | Inr (r, ds') \<Rightarrow> Inr (r, d # ds')))"

text \<open>
  The in-memory collection: its state is the list of its documents. The driver marshals
  the filter and the update document first, and it cannot marshal a key that holds a
  NUL byte; then the server checks the update paths for empty field names; only then a
  document is looked for. A failed update leaves the collection as it was.
\<close>

definition FindOne :: "bson list \<Rightarrow> filter_doc \<Rightarrow> bson option" where
  "FindOne c flt = find (matches flt) c"

definition UpdateOne :: "(bson list) UpdateOneFn" where
  "UpdateOne c flt u =
     (case u of SetOp as \<Rightarrow>
        if \<not> (list_all (\<lambda>(k, v). cstring k) flt \<and> list_all (\<lambda>(p, v). cstring p) as)
        then (Inl (ErrorString ''BSON element key cannot contain null bytes''), c)
        else if \<not> list_all (\<lambda>(p, v). valid_field_path (field_path p)) as
        then (Inl (WriteException ''empty field name in update path''), c)
        else (case update_first flt as c of
                Inl e \<Rightarrow> (Inl e, c)
              | Inr (r, c') \<Rightarrow> (Inr r, c')))"

subsection \<open>Test doubles of the collection\<close>

text \<open>
  A collection that only records the filter and the update document of every call,
  and reports one matched document: it shows what a store hands to its collection.
\<close>

definition recordingCollection_UpdateOne :: "((filter_doc \<times> update) list) UpdateOneFn" where
  "recordingCollection_UpdateOne calls flt u =
     (Inr \<lparr>MatchedCount = 1, ModifiedCount = 1\<rparr>, calls @ [(flt, u)])"

text \<open>
  The mock collection of the store's tests answers every \<^verbatim>\<open>UpdateOne\<close> with one fixed
  result and has no state.
\<close>

definition mockCollection_UpdateOne :: "error + UpdateResult \<Rightarrow> unit UpdateOneFn" where
  "mockCollection_UpdateOne result c flt u = (result, c)"

section \<open>The jobs store\<close>

text \<open>
  \<^verbatim>\<open>jobsStore\<close> works on the collection of events. A job and a job status reach the
  driver as documents; their Go types are declared outside the store and the store
  never looks inside them.
\<close>

text \<open>
  Modelled from the spec: the names of jobs are drawn from \<^verbatim>\<open>[a-z0-9-]{1,63}\<close>. No
  code of the store checks a name; the form only says which names the theorems on new
  jobs speak about.
\<close>

definition job_name :: "string \<Rightarrow> bool" where
  "job_name n =
     (1 \<le> length n \<and> length n \<le> 63 \<and>
      list_all (\<lambda>x. x \<in> set ''abcdefghijklmnopqrstuvwxyz0123456789-'') n)"

definition jobsStore_Create ::
  "'c UpdateOneFn \<Rightarrow> 'c \<Rightarrow> string \<Rightarrow> string \<Rightarrow> bson \<Rightarrow> error option \<times> 'c" where
  "jobsStore_Create collection_UpdateOne c eventID jobName job =
     (case collection_UpdateOne c
             [(''id'', BStr eventID)]
             (SetOp [(''worker.jobs.'' @ jobName, job)]) of
        (Inl err, c') \<Rightarrow>
          (Some (Wrapf err ''error updating spec of event %q job %q'' [eventID, jobName]), c')
      | (Inr res, c') \<Rightarrow>
          if MatchedCount res = 0 then (Some (ErrNotFound ''Event'' eventID), c')
          else (None, c'))"

definition jobsStore_UpdateStatus ::
  "'c UpdateOneFn \<Rightarrow> 'c \<Rightarrow> string \<Rightarrow> string \<Rightarrow> bson \<Rightarrow> error option \<times> 'c" where
  "jobsStore_UpdateStatus collection_UpdateOne c eventID jobName status =
     (case collection_UpdateOne c
             [(''id'', BStr eventID)]
             (SetOp [(''worker.jobs.'' @ jobName @ ''.status'', status)]) of
        (Inl err, c') \<Rightarrow>
          (Some (Wrapf err ''error updating status of event %q worker job %q''
                   [eventID, jobName]), c')
      | (Inr res, c') \<Rightarrow>
          if MatchedCount res = 0 then (Some (ErrNotFound ''Job'' eventID), c')
          else (None, c'))"

section \<open>The state machine of the specification\<close>

text \<open>
  Modelled from the spec: the transition graph of section 4.6, which both the Worker
  and the Job state machine follow. No code of the jobs store consults it; it is written
  down here only to say which updates the specification calls invalid.
\<close>

definition spec_transitions :: "(string \<times> string) list" where
  "spec_transitions =
     [(''PENDING'', ''STARTING''),
      (''STARTING'', ''RUNNING''),
      (''RUNNING'', ''SUCCEEDED''),
      (''RUNNING'', ''FAILED''),
      (''RUNNING'', ''ABORTED''),
      (''RUNNING'', ''TIMED_OUT''),
      (''STARTING'', ''SCHEDULING_FAILED''),
      (''PENDING'', ''ABORTED'')]"

definition spec_transition_allowed :: "string \<Rightarrow> string \<Rightarrow> bool" where
  "spec_transition_allowed old new = ((old, new) \<in> set spec_transitions)"

section \<open>The users store\<close>

text \<open>
  Modelled from the spec: \<^verbatim>\<open>usersStore.Lock\<close> and \<^verbatim>\<open>usersStore.Unlock\<close> are not
  among the source files, only their tests are. Following the tests, each is one
  \<^verbatim>\<open>UpdateOne\<close> on the users collection, selected by the user ID: a driver error comes
  back wrapped with the words "error updating user", no matched document gives a
  not-found error of type "User" with the ID, anything else is success. Following the
  data model of the specification, what is set is the locked flag of the user.
\<close>

definition usersStore_Lock :: "'c UpdateOneFn \<Rightarrow> 'c \<Rightarrow> string \<Rightarrow> error option \<times> 'c" where
  "usersStore_Lock collection_UpdateOne c id' =
     (case collection_UpdateOne c [(''id'', BStr id')] (SetOp [(''locked'', BBool True)]) of
        (Inl err, c') \<Rightarrow> (Some (Wrapf err ''error updating user %q'' [id']), c')
      | (Inr res, c') \<Rightarrow>
          if MatchedCount res = 0 then (Some (ErrNotFound ''User'' id'), c')
          else (None, c'))"

definition usersStore_Unlock :: "'c UpdateOneFn \<Rightarrow> 'c \<Rightarrow> string \<Rightarrow> error option \<times> 'c" where
  "usersStore_Unlock collection_UpdateOne c id' =
     (case collection_UpdateOne c [(''id'', BStr id')] (SetOp [(''locked'', BBool False)]) of
        (Inl err, c') \<Rightarrow> (Some (Wrapf err ''error updating user %q'' [id']), c')
      | (Inr res, c') \<Rightarrow>
          if MatchedCount res = 0 then (Some (ErrNotFound ''User'' id'), c')
          else (None, c'))"

section \<open>Roles and the named principals\<close>

text \<open>
  Modelled from the spec: the role constructors of packages \<^verbatim>\<open>system\<close> and
  \<^verbatim>\<open>core\<close> and the constant \<^verbatim>\<open>RoleScopeGlobal\<close> are not among the source files. A
  role is a name with an optional scope; each constructor is kept as a constructor of
  its own, the scoped ones with their scope, and the global scope is \<^verbatim>\<open>*\<close>.
\<close>

datatype role =
    RoleAdmin
  | RoleReader
  | RoleEventCreator string
  | RoleProjectAdmin string
  | RoleProjectCreator
  | RoleProjectDeveloper string
  | RoleProjectUser string
  | RoleScheduler
  | RoleObserver
  | RoleWorker string

definition RoleScopeGlobal :: string where
  "RoleScopeGlobal = ''*''"

definition rootPrincipal_Roles :: "role list" where
  "rootPrincipal_Roles =
     [RoleAdmin,
      RoleReader,
      RoleEventCreator RoleScopeGlobal,
      RoleProjectAdmin RoleScopeGlobal,
      RoleProjectCreator,
      RoleProjectDeveloper RoleScopeGlobal,
      RoleProjectUser RoleScopeGlobal]"

definition schedulerPrincipal_Roles :: "role list" where
  "schedulerPrincipal_Roles = [RoleReader, RoleScheduler]"

definition observerPrincipal_Roles :: "role list" where
  "observerPrincipal_Roles = [RoleReader, RoleObserver]"

record workerPrincipal =
  eventID :: string

definition workerPrincipal_Roles :: "workerPrincipal \<Rightarrow> role list" where
  "workerPrincipal_Roles w = [RoleReader, RoleWorker (eventID w)]"

definition worker :: "string \<Rightarrow> workerPrincipal" where
  "worker ev = \<lparr>eventID = ev\<rparr>"

text \<open>
  The four implementations of the \<^verbatim>\<open>Principal\<close> interface in this package, and the
  interface's one method, which goes to the implementation of the value at hand.
\<close>

datatype named_principal = root | scheduler | observer | a_worker workerPrincipal

fun Roles :: "named_principal \<Rightarrow> role list" where
  "Roles root = rootPrincipal_Roles"
| "Roles scheduler = schedulerPrincipal_Roles"
| "Roles observer = observerPrincipal_Roles"
| "Roles (a_worker w) = workerPrincipal_Roles w"

section \<open>The role assignments service\<close>

text \<open>
  Modelled from the spec: \<^verbatim>\<open>roleAssignmentsService\<close> is not among the source files,
  only its tests are. The specification says that every operation of a service begins
  with the authorization check and fails with an authorization error when no role
  matches; role assignments are granted and revoked by admins, and for listing them the
  model asks for the reader role (the specification names none). What an operation does
  in the stores after the check is a parameter of the model: an action that may read
  and write the users, service-accounts and role-assignments stores, recorded in a log
  of accesses, and that panics when it reaches a store that is nil, as all three are in
  the test case of the unauthorized caller.
\<close>

datatype store_access =
    usersStore_access
  | serviceAccountsStore_access
  | roleAssignmentsStore_access

datatype 'a outcome = Returns 'a | Panics

type_synonym 'a store_action = "store_access list \<Rightarrow> 'a outcome \<times> store_access list"

text \<open>
  \<^verbatim>\<open>PrincipalType\<close> is a string type with two named values; a role assignment names
  its principal by type and ID.
\<close>

definition PrincipalTypeServiceAccount :: string where
  "PrincipalTypeServiceAccount = ''SERVICE_ACCOUNT''"

definition PrincipalTypeUser :: string where
  "PrincipalTypeUser = ''USER''"

record RoleAssignment =
  Role :: role
  PrincipalType :: string
  PrincipalID :: string

definition AlwaysAuthorize :: "role \<Rightarrow> error option" where
  "AlwaysAuthorize r = None"

definition NeverAuthorize :: "role \<Rightarrow> error option" where
  "NeverAuthorize r = Some ErrAuthorization"

definition roleAssignmentsService_Grant ::
  "(role \<Rightarrow> error option) \<Rightarrow> (RoleAssignment \<Rightarrow> (error option) store_action) \<Rightarrow>
   RoleAssignment \<Rightarrow> (error option) store_action" where
  "roleAssignmentsService_Grant authorize grant_in_stores roleAssignment log =
     (case authorize RoleAdmin of
        Some err \<Rightarrow> (Returns (Some err), log)
      | None \<Rightarrow> grant_in_stores roleAssignment log)"

definition roleAssignmentsService_List ::
  "(role \<Rightarrow> error option) \<Rightarrow> (error + RoleAssignment list) store_action \<Rightarrow>
   (error + RoleAssignment list) store_action" where
  "roleAssignmentsService_List authorize list_in_stores log =
     (case authorize RoleReader of
        Some err \<Rightarrow> (Returns (Inl err), log)
      | None \<Rightarrow> list_in_stores log)"

definition roleAssignmentsService_Revoke ::
  "(role \<Rightarrow> error option) \<Rightarrow> (RoleAssignment \<Rightarrow> (error option) store_action) \<Rightarrow>
   RoleAssignment \<Rightarrow> (error option) store_action" where
  "roleAssignmentsService_Revoke authorize revoke_in_stores roleAssignment log =
     (case authorize RoleAdmin of
        Some err \<Rightarrow> (Returns (Some err), log)
      | None \<Rightarrow> revoke_in_stores roleAssignment log)"

section \<open>The principal on the request context\<close>

text \<open>
  A \<^verbatim>\<open>context.Context\<close> is an immutable chain: the background context, a context that
  adds one key with its value to a parent, or one that adds cancellation or a deadline
  and leaves the values alone. Looking a key up walks from the newest link to the
  oldest and gives \<^verbatim>\<open>nil\<close> when no link has it. The key of the principal is a private
  type of the package, so it equals no other key. A value is an \<^verbatim>\<open>interface{}\<close>: nil, a
  value that implements \<^verbatim>\<open>Principal\<close> (of any type \<^typ>\<open>'p\<close>), or some other value.
  Contexts here are non-nil, as every context made by package \<^verbatim>\<open>context\<close> is.
\<close>

datatype context_key = principalContextKey | other_key string

datatype 'p any = NilValue | PrincipalValue 'p | OtherValue string

datatype 'p Context =
    Background
  | WithValue "'p Context" context_key "'p any"
  | WithCancel "'p Context"

fun Value :: "'p Context \<Rightarrow> context_key \<Rightarrow> 'p any" where
  "Value Background key = NilValue"
| "Value (WithValue parent k v) key = (if k = key then v else Value parent key)"
| "Value (WithCancel parent) key = Value parent key"

text \<open>
  The argument of \<^verbatim>\<open>ContextWithPrincipal\<close> has the interface type, so it may be the
  nil interface (None); the context then holds nil under the key.
\<close>

definition ContextWithPrincipal :: "'p Context \<Rightarrow> 'p option \<Rightarrow> 'p Context" where
  "ContextWithPrincipal ctx pr =
     WithValue ctx principalContextKey
       (case pr of None \<Rightarrow> NilValue | Some p \<Rightarrow> PrincipalValue p)"

text \<open>
  The type assertion \<^verbatim>\<open>.(Principal)\<close> has no second result, so it panics on nil and
  on a value that does not implement the interface.
\<close>

datatype panic = interface_is_nil | interface_is_not_Principal

definition PrincipalFromContext :: "'p Context \<Rightarrow> panic + 'p" where
  "PrincipalFromContext ctx =
     (case Value ctx principalContextKey of
        NilValue \<Rightarrow> Inl interface_is_nil
      | PrincipalValue p \<Rightarrow> Inr p
      | OtherValue x \<Rightarrow> Inl interface_is_not_Principal)"

text \<open>A context was augmented when some link of its chain carries the principal's key.\<close>

fun augmented :: "'p Context \<Rightarrow> bool" where
  "augmented Background = False"
| "augmented (WithValue parent k v) = (k = principalContextKey \<or> augmented parent)"
| "augmented (WithCancel parent) = augmented parent"

section \<open>Facts about paths and documents\<close>

declare cstring_def [simp]

lemma split_on_nonempty: "split_on c xs \<noteq> []"
  by (induction xs) (auto split: list.splits)

lemma split_on_no_sep: "c \<notin> set xs \<Longrightarrow> split_on c xs = [xs]"
  by (induction xs) auto

lemma split_on_sep: "c \<notin> set xs \<Longrightarrow> split_on c (xs @ c # ys) = xs # split_on c ys"
  by (induction xs) auto

lemma split_on_chars: "k \<in> set (split_on c xs) \<Longrightarrow> set k \<subseteq> set xs"
proof (induction xs arbitrary: k)
  case Nil
  then show ?case by simp
next
  case (Cons x xs)
  obtain w ws where parts: "split_on c xs = w # ws"
    using split_on_nonempty [of c xs] by (cases "split_on c xs") auto
  with Cons.IH have w: "set w \<subseteq> set xs" and ws: "\<And>k. k \<in> set ws \<Longrightarrow> set k \<subseteq> set xs"
    by simp_all
  from Cons.prems parts w ws show ?case
    by (auto split: if_splits)
qed

lemma cstring_field_path: "cstring p \<Longrightarrow> list_all cstring (field_path p)"
  using split_on_chars [of _ "CHR ''.''" p]
  by (auto simp: field_path_def list_all_iff)

lemma get_after_set:
  "set_path p v d = Some d' \<Longrightarrow> list_all cstring p \<Longrightarrow> get_path p d' = Some v"
proof (induction p arbitrary: d d')
  case Nil
  then show ?case by simp
next
  case (Cons k ks)
  then show ?case
    by (cases d) (auto simp: AList.update_conv' split: option.splits)
qed

lemma get_path_empty_doc: "diverge p q \<Longrightarrow> get_path q (BDoc []) = None"
  by (cases p; cases q) auto

lemma set_path_frame:
  "set_path p v d = Some d' \<Longrightarrow> diverge p q \<Longrightarrow> get_path q d' = get_path q d"
proof (induction p arbitrary: d d' q)
  case Nil
  then show ?case by simp
next
  case (Cons k ks)
  then obtain b q' where q: "q = b # q'" by (cases q) auto
  from Cons.prems obtain fs where d: "d = BDoc fs" by (cases d) auto
  show ?case
  proof (cases "map_of fs k")
    case None
    with Cons q d show ?thesis
      by (auto simp: AList.update_conv' get_path_empty_doc split: option.splits)
  next
    case (Some sub)
    with Cons q d show ?thesis
      by (auto simp: AList.update_conv' split: option.splits)
  qed
qed

lemma split_on_append: "split_on c (xs @ c # ys) = split_on c xs @ split_on c ys"
  by (induction xs) (auto simp: split_on_nonempty split: list.splits)

lemma field_path_job: "field_path (''worker.jobs.'' @ n) = ''worker'' # ''jobs'' # field_path n"
  by (simp add: field_path_def)

lemma field_path_job_status:
  "field_path (''worker.jobs.'' @ n @ ''.status'') =
     ''worker'' # ''jobs'' # field_path n @ [''status'']"
  using split_on_append [of "CHR ''.''" n "''status''"]
  by (simp add: field_path_def)

lemma field_path_plain: "CHR ''.'' \<notin> set n \<Longrightarrow> field_path n = [n]"
  by (simp add: field_path_def split_on_no_sep)

lemma field_path_id: "field_path ''id'' = [''id'']"
  by (simp add: field_path_def)

lemma field_path_locked: "field_path ''locked'' = [''locked'']"
  by (simp add: field_path_def)

lemma matches_id: "matches [(''id'', BStr e)] d = (get_path [''id''] d = Some (BStr e))"
  by (simp add: matches_def field_path_id)

lemma get_path_append:
  "get_path (q @ r) d = (case get_path q d of None \<Rightarrow> None | Some sub \<Rightarrow> get_path r sub)"
proof (induction q arbitrary: d)
  case Nil
  then show ?case by simp
next
  case (Cons k ks)
  then show ?case by (cases d) (auto split: option.splits)
qed

lemma set_path_defined: "get_path q d = Some sub \<Longrightarrow> \<exists>d'. set_path q s d = Some d'"
proof (induction q arbitrary: d)
  case Nil
  then show ?case by simp
next
  case (Cons k ks)
  from Cons.prems obtain fs where d: "d = BDoc fs" by (cases d) auto
  with Cons.prems obtain x where x: "map_of fs k = Some x" "get_path ks x = Some sub"
    by (auto split: option.splits if_splits)
  from Cons.IH [OF x(2)] obtain x' where "set_path ks s x = Some x'" by blast
  with d x show ?case by simp
qed

lemma set_path_append:
  "get_path q d = Some sub \<Longrightarrow>
   set_path (q @ r) v d =
     (case set_path r v sub of None \<Rightarrow> None | Some sub' \<Rightarrow> set_path q sub' d)"
proof (induction q arbitrary: d)
  case Nil
  then show ?case by (simp split: option.splits)
next
  case (Cons k ks)
  from Cons.prems obtain fs where d: "d = BDoc fs" by (cases d) auto
  with Cons.prems obtain x where x: "map_of fs k = Some x" "get_path ks x = Some sub"
    by (auto split: option.splits if_splits)
  from Cons.IH [OF x(2)] d x show ?case by (simp split: option.splits)
qed

subsection \<open>What the in-memory collection answers\<close>

lemma update_first_none:
  "find (matches flt) c = None \<Longrightarrow>
   update_first flt as c = Inr (\<lparr>MatchedCount = 0, ModifiedCount = 0\<rparr>, c)"
  by (induction c) (auto split: if_splits)

lemma update_first_some:
  "find (matches flt) c = Some d \<Longrightarrow> apply_set as d = Some d' \<Longrightarrow>
   \<exists>pre post. c = pre @ d # post \<and> (\<forall>x \<in> set pre. \<not> matches flt x) \<and>
     update_first flt as c =
       Inr (\<lparr>MatchedCount = 1, ModifiedCount = (if d' = d then 0 else 1)\<rparr>, pre @ d' # post)"
proof (induction c)
  case Nil
  then show ?case by simp
next
  case (Cons x c)
  show ?case
  proof (cases "matches flt x")
    case True
    with Cons.prems have "x = d" by simp
    with True Cons.prems show ?thesis
      by (intro exI [of _ "[]"] exI [of _ c]) simp
  next
    case False
    with Cons obtain pre post where
      "c = pre @ d # post" "\<forall>x \<in> set pre. \<not> matches flt x"
      "update_first flt as c =
         Inr (\<lparr>MatchedCount = 1, ModifiedCount = (if d' = d then 0 else 1)\<rparr>, pre @ d' # post)"
      by auto
    with False show ?thesis
      by (intro exI [of _ "x # pre"] exI [of _ post]) simp
  qed
qed

lemma find_replaced:
  "\<forall>x \<in> set pre. \<not> P x \<Longrightarrow> P d' \<Longrightarrow> find P (pre @ d' # post) = Some d'"
  by (induction pre) auto

lemma UpdateOne_no_match:
  assumes "FindOne c [(''id'', BStr e)] = None"
    and "cstring p" and "valid_field_path (field_path p)"
  shows "UpdateOne c [(''id'', BStr e)] (SetOp [(p, v)]) =
    (Inr \<lparr>MatchedCount = 0, ModifiedCount = 0\<rparr>, c)"
  using assms by (simp add: UpdateOne_def FindOne_def update_first_none)

lemma UpdateOne_null_byte:
  "\<not> cstring p \<Longrightarrow>
   UpdateOne c flt (SetOp [(p, v)]) =
     (Inl (ErrorString ''BSON element key cannot contain null bytes''), c)"
  by (simp add: UpdateOne_def)

lemma UpdateOne_empty_field:
  "cstring p \<Longrightarrow> \<not> valid_field_path (field_path p) \<Longrightarrow>
   UpdateOne c [(''id'', BStr e)] (SetOp [(p, v)]) =
     (Inl (WriteException ''empty field name in update path''), c)"
  by (simp add: UpdateOne_def)

lemma UpdateOne_error_keeps: "UpdateOne c flt u = (Inl e, c') \<Longrightarrow> c' = c"
  by (cases u) (auto simp: UpdateOne_def split: if_splits sum.splits)

lemma UpdateOne_no_match_keeps:
  "UpdateOne c flt u = (Inr r, c') \<Longrightarrow> MatchedCount r = 0 \<Longrightarrow> c' = c"
proof -
  have "update_first flt as ds = Inr (r, ds') \<Longrightarrow> MatchedCount r = 0 \<Longrightarrow> ds' = ds"
    for as ds ds'
    by (induction ds arbitrary: ds') (auto split: if_splits option.splits sum.splits)
  then show "UpdateOne c flt u = (Inr r, c') \<Longrightarrow> MatchedCount r = 0 \<Longrightarrow> c' = c"
    by (cases u) (auto simp: UpdateOne_def split: if_splits sum.splits)
qed

text \<open>
  The update of the stores at work: the filter selects by \<^verbatim>\<open>id\<close>, the path leads through
  a part \<open>q\<close> that the selected document has, it does not touch \<^verbatim>\<open>id\<close>, and what is
  below \<open>q\<close> can be set. Then one document matched, it now holds the new value below
  \<open>q\<close>, every path that parts ways with the path of the update reads as before, and
  the other documents of the collection are the same.
\<close>

lemma UpdateOne_by_id:
  assumes found: "FindOne c [(''id'', BStr e)] = Some d"
    and key: "cstring p"
    and path: "field_path p = q @ r" "valid_field_path (q @ r)" "diverge (q @ r) [''id'']"
    and sub: "get_path q d = Some sub" "set_path r v sub = Some sub'"
  shows "\<exists>res c' d'.
    UpdateOne c [(''id'', BStr e)] (SetOp [(p, v)]) = (Inr res, c') \<and>
    MatchedCount res = 1 \<and>
    FindOne c' [(''id'', BStr e)] = Some d' \<and>
    get_path q d' = Some sub' \<and>
    (\<forall>q'. diverge (q @ r) q' \<longrightarrow> get_path q' d' = get_path q' d) \<and>
    (\<exists>pre post. c = pre @ d # post \<and> c' = pre @ d' # post)"
proof -
  let ?flt = "[(''id'', BStr e)]"
  from set_path_defined [OF sub(1)] obtain d' where d': "set_path q sub' d = Some d'"
    by blast
  with sub have whole: "set_path (q @ r) v d = Some d'"
    by (simp add: set_path_append)
  then have app: "apply_set [(p, v)] d = Some d'"
    by (simp add: path(1))
  from found have fnd: "find (matches ?flt) c = Some d"
    by (simp add: FindOne_def)
  from update_first_some [OF fnd app] obtain pre post where
    c: "c = pre @ d # post" and pre: "\<forall>x \<in> set pre. \<not> matches ?flt x" and
    upd: "update_first ?flt [(p, v)] c =
      Inr (\<lparr>MatchedCount = 1, ModifiedCount = (if d' = d then 0 else 1)\<rparr>, pre @ d' # post)"
    by blast
  from fnd have "matches ?flt d"
    by (auto simp: find_Some_iff)
  moreover have frame: "get_path q' d' = get_path q' d" if "diverge (q @ r) q'" for q'
    using set_path_frame [OF whole that] .
  ultimately have "matches ?flt d'"
    using path(3) by (simp add: matches_id)
  with pre have "FindOne (pre @ d' # post) ?flt = Some d'"
    by (simp add: FindOne_def find_replaced)
  moreover have "get_path q d' = Some sub'"
    using get_after_set [OF d'] cstring_field_path [OF key] path(1) by simp
  moreover have "UpdateOne c ?flt (SetOp [(p, v)]) =
      (Inr \<lparr>MatchedCount = 1, ModifiedCount = (if d' = d then 0 else 1)\<rparr>, pre @ d' # post)"
    using upd key path(1,2) by (simp add: UpdateOne_def)
  ultimately show ?thesis
    using c frame by auto
qed

subsection \<open>What the jobs store does on a stored event\<close>

lemma valid_job_path:
  "valid_field_path (field_path n) \<Longrightarrow> valid_field_path (field_path (''worker.jobs.'' @ n))"
  unfolding field_path_job valid_field_path_def by simp

lemma valid_job_status_path:
  "valid_field_path (field_path n) \<Longrightarrow>
   valid_field_path (field_path (''worker.jobs.'' @ n @ ''.status''))"
  unfolding field_path_job_status valid_field_path_def by simp

lemma job_path:
  "CHR ''.'' \<notin> set n \<Longrightarrow> field_path (''worker.jobs.'' @ n) = [''worker'', ''jobs''] @ [n]"
  unfolding field_path_job by (simp add: field_path_plain)

lemma job_status_path:
  "CHR ''.'' \<notin> set n \<Longrightarrow>
   field_path (''worker.jobs.'' @ n @ ''.status'') = [''worker'', ''jobs''] @ [n, ''status'']"
  unfolding field_path_job_status by (simp add: field_path_plain)

lemma cstring_job: "cstring (''worker.jobs.'' @ n) = cstring n"
  by simp

lemma cstring_job_status: "cstring (''worker.jobs.'' @ n @ ''.status'') = cstring n"
  by simp

text \<open>A name of the form of the specification is a plain field name.\<close>

lemma job_name_plain:
  assumes "job_name n"
  shows "n \<noteq> []" and "CHR ''.'' \<notin> set n" and "CHR 0x00 \<notin> set n"
proof -
  from assms show "n \<noteq> []" by (auto simp: job_name_def)
  from assms have *: "x \<in> set ''abcdefghijklmnopqrstuvwxyz0123456789-''" if "x \<in> set n" for x
    using that unfolding job_name_def list_all_iff by blast
  show "CHR ''.'' \<notin> set n"
  proof
    assume "CHR ''.'' \<in> set n"
    from * [OF this] show False by simp
  qed
  show "CHR 0x00 \<notin> set n"
  proof
    assume "CHR 0x00 \<in> set n"
    from * [OF this] show False by simp
  qed
qed

lemma Create_on_event:
  assumes found: "FindOne c [(''id'', BStr ev)] = Some d"
    and name: "n \<noteq> []" "CHR ''.'' \<notin> set n" "CHR 0x00 \<notin> set n"
    and jobs: "get_path [''worker'', ''jobs''] d = Some (BDoc js)"
  shows "\<exists>c' d'.
    jobsStore_Create UpdateOne c ev n job = (None, c') \<and>
    FindOne c' [(''id'', BStr ev)] = Some d' \<and>
    get_path [''worker'', ''jobs''] d' = Some (BDoc (AList.update n job js)) \<and>
    (\<forall>q'. diverge [''worker'', ''jobs'', n] q' \<longrightarrow> get_path q' d' = get_path q' d) \<and>
    (\<exists>pre post. c = pre @ d # post \<and> c' = pre @ d' # post)"
proof -
  have key: "cstring (''worker.jobs.'' @ n)"
    using name(3) by simp
  have valid: "valid_field_path ([''worker'', ''jobs''] @ [n])"
    using name by (simp add: valid_field_path_def)
  have div: "diverge ([''worker'', ''jobs''] @ [n]) [''id'']" by simp
  have "set_path [n] job (BDoc js) = Some (BDoc (AList.update n job js))" by simp
  from UpdateOne_by_id [OF found key job_path [OF name(2)] valid div jobs this]
  obtain res c' d' where
    "UpdateOne c [(''id'', BStr ev)] (SetOp [(''worker.jobs.'' @ n, job)]) = (Inr res, c')"
    "MatchedCount res = 1"
    "FindOne c' [(''id'', BStr ev)] = Some d'"
    "get_path [''worker'', ''jobs''] d' = Some (BDoc (AList.update n job js))"
    "\<forall>q'. diverge ([''worker'', ''jobs''] @ [n]) q' \<longrightarrow> get_path q' d' = get_path q' d"
    "\<exists>pre post. c = pre @ d # post \<and> c' = pre @ d' # post"
    by blast
  then show ?thesis
    unfolding jobsStore_Create_def by (intro exI [of _ c'] exI [of _ d']) simp
qed

text \<open>The same when the worker has no jobs yet: the document of the jobs is created.\<close>

lemma Create_on_event_without_jobs:
  assumes found: "FindOne c [(''id'', BStr ev)] = Some d"
    and name: "n \<noteq> []" "CHR ''.'' \<notin> set n" "CHR 0x00 \<notin> set n"
    and worker: "get_path [''worker''] d = Some (BDoc wd)" "map_of wd ''jobs'' = None"
  shows "\<exists>c' d'.
    jobsStore_Create UpdateOne c ev n job = (None, c') \<and>
    FindOne c' [(''id'', BStr ev)] = Some d' \<and>
    get_path [''worker'', ''jobs''] d' = Some (BDoc [(n, job)]) \<and>
    (\<forall>q'. diverge [''worker'', ''jobs'', n] q' \<longrightarrow> get_path q' d' = get_path q' d) \<and>
    (\<exists>pre post. c = pre @ d # post \<and> c' = pre @ d' # post)"
proof -
  have key: "cstring (''worker.jobs.'' @ n)"
    using name(3) by simp
  have path: "field_path (''worker.jobs.'' @ n) = [''worker''] @ [''jobs'', n]"
    using job_path [OF name(2)] by simp
  have valid: "valid_field_path ([''worker''] @ [''jobs'', n])"
    using name by (simp add: valid_field_path_def)
  have div: "diverge ([''worker''] @ [''jobs'', n]) [''id'']" by simp
  let ?w = "BDoc (AList.update ''jobs'' (BDoc [(n, job)]) wd)"
  have "set_path [''jobs'', n] job (BDoc wd) = Some ?w"
    using worker(2) by simp
  from UpdateOne_by_id [OF found key path valid div worker(1) this]
  obtain res c' d' where r:
    "UpdateOne c [(''id'', BStr ev)] (SetOp [(''worker.jobs.'' @ n, job)]) = (Inr res, c')"
    "MatchedCount res = 1"
    "FindOne c' [(''id'', BStr ev)] = Some d'"
    "get_path [''worker''] d' = Some ?w"
    "\<forall>q'. diverge ([''worker''] @ [''jobs'', n]) q' \<longrightarrow> get_path q' d' = get_path q' d"
    "\<exists>pre post. c = pre @ d # post \<and> c' = pre @ d' # post"
    by blast
  have "get_path [''worker'', ''jobs''] d' = Some (BDoc [(n, job)])"
    using r(4) get_path_append [of "[''worker'']" "[''jobs'']" d']
    by (simp add: AList.update_conv')
  with r show ?thesis
    unfolding jobsStore_Create_def by (intro exI [of _ c'] exI [of _ d']) simp
qed

lemma UpdateStatus_on_event:
  assumes found: "FindOne c [(''id'', BStr ev)] = Some d"
    and name: "n \<noteq> []" "CHR ''.'' \<notin> set n" "CHR 0x00 \<notin> set n"
    and jobs: "get_path [''worker'', ''jobs''] d = Some (BDoc js)"
    and sub: "set_path [n, ''status''] st (BDoc js) = Some js'"
  shows "\<exists>c' d'.
    jobsStore_UpdateStatus UpdateOne c ev n st = (None, c') \<and>
    FindOne c' [(''id'', BStr ev)] = Some d' \<and>
    get_path [''worker'', ''jobs''] d' = Some js' \<and>
    (\<forall>q'. diverge [''worker'', ''jobs'', n, ''status''] q' \<longrightarrow>
       get_path q' d' = get_path q' d) \<and>
    (\<exists>pre post. c = pre @ d # post \<and> c' = pre @ d' # post)"
proof -
  have key: "cstring (''worker.jobs.'' @ n @ ''.status'')"
    using name(3) by simp
  have valid: "valid_field_path ([''worker'', ''jobs''] @ [n, ''status''])"
    using name by (simp add: valid_field_path_def)
  have div: "diverge ([''worker'', ''jobs''] @ [n, ''status'']) [''id'']" by simp
  from UpdateOne_by_id [OF found key job_status_path [OF name(2)] valid div jobs sub]
  obtain res c' d' where
    "UpdateOne c [(''id'', BStr ev)] (SetOp [(''worker.jobs.'' @ n @ ''.status'', st)]) =
       (Inr res, c')"
    "MatchedCount res = 1"
    "FindOne c' [(''id'', BStr ev)] = Some d'"
    "get_path [''worker'', ''jobs''] d' = Some js'"
    "\<forall>q'. diverge ([''worker'', ''jobs''] @ [n, ''status'']) q' \<longrightarrow>
       get_path q' d' = get_path q' d"
    "\<exists>pre post. c = pre @ d # post \<and> c' = pre @ d' # post"
    by blast
  then show ?thesis
    unfolding jobsStore_UpdateStatus_def by (intro exI [of _ c'] exI [of _ d']) simp
qed

lemma jobsStore_never_conflict:
  "fst (jobsStore_Create f c ev n job) \<noteq> Some (ErrConflict t i r)"
  "fst (jobsStore_UpdateStatus f c ev n st) \<noteq> Some (ErrConflict t i r)"
  by (auto simp: jobsStore_Create_def jobsStore_UpdateStatus_def split: prod.splits sum.splits)

lemma jobsStore_error_keeps:
  "fst (jobsStore_Create UpdateOne c ev n job) \<noteq> None \<Longrightarrow>
   snd (jobsStore_Create UpdateOne c ev n job) = c"
  "fst (jobsStore_UpdateStatus UpdateOne c ev n st) \<noteq> None \<Longrightarrow>
   snd (jobsStore_UpdateStatus UpdateOne c ev n st) = c"
  by (auto simp: jobsStore_Create_def jobsStore_UpdateStatus_def
      split: prod.splits sum.splits if_splits
      dest: UpdateOne_error_keeps UpdateOne_no_match_keeps)

text \<open>
  A job whose phase can be read under its name is a document among the jobs of the
  worker, and its name is a C string.
\<close>

lemma job_of_phase:
  assumes "get_path [''worker'', ''jobs'', n, ''status'', ''phase''] d = Some old_phase"
  shows "\<exists>js jf. get_path [''worker'', ''jobs''] d = Some (BDoc js) \<and>
                 map_of js n = Some (BDoc jf) \<and> CHR 0x00 \<notin> set n"
proof -
  from assms get_path_append [of "[''worker'', ''jobs'']" "[n, ''status'', ''phase'']" d]
  obtain sub where sub: "get_path [''worker'', ''jobs''] d = Some sub"
    "get_path [n, ''status'', ''phase''] sub = Some old_phase"
    by (auto split: option.splits)
  from sub(2) obtain js where js: "sub = BDoc js" by (cases sub) auto
  with sub(2) obtain jb where jb: "map_of js n = Some jb" "CHR 0x00 \<notin> set n"
    "get_path [''status'', ''phase''] jb = Some old_phase"
    by (auto split: option.splits if_splits)
  from jb(3) obtain jf where "jb = BDoc jf" by (cases jb) auto
  with sub js jb show ?thesis by simp
qed

section \<open>Status updates of the jobs store\<close>

text \<open>
  Claim C1, as the specification states it, asks that an update of a job status that
  the graph of section 4.6 does not allow (any update of a job in a terminal phase, for
  one) is answered with a conflict and leaves the stored status as it was. Here the
  job \<^verbatim>\<open>build\<close> of event \<^verbatim>\<open>event-1\<close> has phase SUCCEEDED, the graph has no edge from
  SUCCEEDED to RUNNING, and the update to RUNNING returns nil and is stored.
\<close>

theorem UpdateStatus_counterexample:
  "\<not> spec_transition_allowed ''SUCCEEDED'' ''RUNNING'' \<and>
   get_path [''worker'', ''jobs'', ''build'', ''status'', ''phase'']
     (BDoc [(''id'', BStr ''event-1''),
            (''worker'', BDoc [(''status'', BDoc [(''phase'', BStr ''RUNNING'')]),
               (''jobs'', BDoc [(''build'', BDoc [(''spec'', BDoc [(''image'', BStr ''alpine'')]),
                                  (''status'', BDoc [(''phase'', BStr ''SUCCEEDED'')])])])])])
     = Some (BStr ''SUCCEEDED'') \<and>
   jobsStore_UpdateStatus UpdateOne
     [BDoc [(''id'', BStr ''event-1''),
            (''worker'', BDoc [(''status'', BDoc [(''phase'', BStr ''RUNNING'')]),
               (''jobs'', BDoc [(''build'', BDoc [(''spec'', BDoc [(''image'', BStr ''alpine'')]),
                                  (''status'', BDoc [(''phase'', BStr ''SUCCEEDED'')])])])])]]
     ''event-1'' ''build'' (BDoc [(''phase'', BStr ''RUNNING'')]) =
   (None,
     [BDoc [(''id'', BStr ''event-1''),
            (''worker'', BDoc [(''status'', BDoc [(''phase'', BStr ''RUNNING'')]),
               (''jobs'', BDoc [(''build'', BDoc [(''spec'', BDoc [(''image'', BStr ''alpine'')]),
                                  (''status'', BDoc [(''phase'', BStr ''RUNNING'')])])])])]])"
  by (simp add: spec_transition_allowed_def spec_transitions_def jobsStore_UpdateStatus_def
      UpdateOne_def field_path_def valid_field_path_def matches_def)

text \<open>
  Claim C1, amended. \<^verbatim>\<open>jobsStore.UpdateStatus\<close> selects the event by its ID alone and
  consults no transition graph. When an event with that ID holds the named job,
  whatever the phase stored for the job (terminal or not), the given status is written
  over the job's status and nil is returned. The store never returns a conflict. When
  it returns an error, the collection is what it was before the call. The filter that
  the store hands to the collection is the event ID and nothing else, and the update
  document sets the status of the job.
\<close>

theorem UpdateStatus_overwrites_any_phase:
  "(FindOne c [(''id'', BStr ev)] = Some d \<and> n \<noteq> [] \<and> CHR ''.'' \<notin> set n \<and>
    get_path [''worker'', ''jobs'', n, ''status'', ''phase''] d = Some old_phase \<longrightarrow>
      (\<exists>c' d'. jobsStore_UpdateStatus UpdateOne c ev n st = (None, c') \<and>
         FindOne c' [(''id'', BStr ev)] = Some d' \<and>
         get_path [''worker'', ''jobs'', n, ''status''] d' = Some st)) \<and>
   fst (jobsStore_UpdateStatus UpdateOne c ev n st) \<noteq> Some (ErrConflict t i r) \<and>
   (fst (jobsStore_UpdateStatus UpdateOne c ev n st) \<noteq> None \<longrightarrow>
      snd (jobsStore_UpdateStatus UpdateOne c ev n st) = c) \<and>
   snd (jobsStore_UpdateStatus recordingCollection_UpdateOne calls ev n st) =
     calls @ [([(''id'', BStr ev)], SetOp [(''worker.jobs.'' @ n @ ''.status'', st)])]"
proof (intro conjI impI)
  assume h: "FindOne c [(''id'', BStr ev)] = Some d \<and> n \<noteq> [] \<and> CHR ''.'' \<notin> set n \<and>
    get_path [''worker'', ''jobs'', n, ''status'', ''phase''] d = Some old_phase"
  then obtain js jf where js: "get_path [''worker'', ''jobs''] d = Some (BDoc js)"
    "map_of js n = Some (BDoc jf)" and nul: "CHR 0x00 \<notin> set n"
    using job_of_phase by blast
  let ?js' = "BDoc (AList.update n (BDoc (AList.update ''status'' st jf)) js)"
  have "set_path [n, ''status''] st (BDoc js) = Some ?js'"
    using js(2) by simp
  from UpdateStatus_on_event [OF _ _ _ nul js(1) this, of c ev] h
  obtain c' d' where r: "jobsStore_UpdateStatus UpdateOne c ev n st = (None, c')"
    "FindOne c' [(''id'', BStr ev)] = Some d'"
    "get_path [''worker'', ''jobs''] d' = Some ?js'"
    by blast
  have "get_path [''worker'', ''jobs'', n, ''status''] d' = Some st"
    using r(3) nul get_path_append [of "[''worker'', ''jobs'']" "[n, ''status'']" d']
    by (simp add: AList.update_conv')
  with r show "\<exists>c' d'. jobsStore_UpdateStatus UpdateOne c ev n st = (None, c') \<and>
         FindOne c' [(''id'', BStr ev)] = Some d' \<and>
         get_path [''worker'', ''jobs'', n, ''status''] d' = Some st"
    by blast
next
  show "fst (jobsStore_UpdateStatus UpdateOne c ev n st) \<noteq> Some (ErrConflict t i r)"
    by (rule jobsStore_never_conflict)
next
  assume "fst (jobsStore_UpdateStatus UpdateOne c ev n st) \<noteq> None"
  then show "snd (jobsStore_UpdateStatus UpdateOne c ev n st) = c"
    by (rule jobsStore_error_keeps)
next
  show "snd (jobsStore_UpdateStatus recordingCollection_UpdateOne calls ev n st) =
     calls @ [([(''id'', BStr ev)], SetOp [(''worker.jobs.'' @ n @ ''.status'', st)])]"
    by (simp add: jobsStore_UpdateStatus_def recordingCollection_UpdateOne_def)
qed

theorem UpdateStatus_overwrites_any_phase_witness:
  "FindOne
     [BDoc [(''id'', BStr ''event-1''),
            (''worker'', BDoc [(''jobs'', BDoc [(''build'',
               BDoc [(''status'', BDoc [(''phase'', BStr ''FAILED'')])])])])]]
     [(''id'', BStr ''event-1'')] =
     Some (BDoc [(''id'', BStr ''event-1''),
            (''worker'', BDoc [(''jobs'', BDoc [(''build'',
               BDoc [(''status'', BDoc [(''phase'', BStr ''FAILED'')])])])])]) \<and>
   get_path [''worker'', ''jobs'', ''build'', ''status'', ''phase'']
     (BDoc [(''id'', BStr ''event-1''),
            (''worker'', BDoc [(''jobs'', BDoc [(''build'',
               BDoc [(''status'', BDoc [(''phase'', BStr ''FAILED'')])])])])])
     = Some (BStr ''FAILED'') \<and>
   (\<exists>c' d'. jobsStore_UpdateStatus UpdateOne
        [BDoc [(''id'', BStr ''event-1''),
            (''worker'', BDoc [(''jobs'', BDoc [(''build'',
               BDoc [(''status'', BDoc [(''phase'', BStr ''FAILED'')])])])])]]
        ''event-1'' ''build'' (BDoc [(''phase'', BStr ''PENDING'')]) = (None, c') \<and>
      FindOne c' [(''id'', BStr ''event-1'')] = Some d' \<and>
      get_path [''worker'', ''jobs'', ''build'', ''status''] d' =
        Some (BDoc [(''phase'', BStr ''PENDING'')]))"
proof -
  let ?d = "BDoc [(''id'', BStr ''event-1''),
            (''worker'', BDoc [(''jobs'', BDoc [(''build'',
               BDoc [(''status'', BDoc [(''phase'', BStr ''FAILED'')])])])])]"
  have a: "FindOne [?d] [(''id'', BStr ''event-1'')] = Some ?d"
    by (simp add: FindOne_def matches_id)
  have b: "get_path [''worker'', ''jobs'', ''build'', ''status'', ''phase''] ?d =
      Some (BStr ''FAILED'')"
    by simp
  have c: "''build'' \<noteq> [] \<and> CHR ''.'' \<notin> set ''build''" by simp
  from UpdateStatus_overwrites_any_phase
    [of "[?d]" "''event-1''" ?d "''build''" "BStr ''FAILED''"
      "BDoc [(''phase'', BStr ''PENDING'')]" "''Job''" "''build''" "''''"]
    a b c
  show ?thesis by blast
qed

section \<open>Creation of jobs by the jobs store\<close>

text \<open>
  Claim C3, as the specification states it, says that creating a job fails for every
  event whose worker is not in phase RUNNING. Here the worker of \<^verbatim>\<open>event-1\<close> is
  PENDING, and the store creates the job \<^verbatim>\<open>build\<close> and returns nil.
\<close>

theorem Create_whatever_worker_phase_counterexample:
  "get_path [''worker'', ''status'', ''phase'']
     (BDoc [(''id'', BStr ''event-1''),
            (''worker'', BDoc [(''status'', BDoc [(''phase'', BStr ''PENDING'')]),
                               (''jobs'', BDoc [])])])
     = Some (BStr ''PENDING'') \<and>
   ''PENDING'' \<noteq> ''RUNNING'' \<and>
   jobsStore_Create UpdateOne
     [BDoc [(''id'', BStr ''event-1''),
            (''worker'', BDoc [(''status'', BDoc [(''phase'', BStr ''PENDING'')]),
                               (''jobs'', BDoc [])])]]
     ''event-1'' ''build'' (BDoc [(''spec'', BDoc [(''image'', BStr ''alpine'')])]) =
   (None,
     [BDoc [(''id'', BStr ''event-1''),
            (''worker'', BDoc [(''status'', BDoc [(''phase'', BStr ''PENDING'')]),
               (''jobs'', BDoc [(''build'',
                  BDoc [(''spec'', BDoc [(''image'', BStr ''alpine'')])])])])]])"
  by (simp add: jobsStore_Create_def UpdateOne_def field_path_def valid_field_path_def
      matches_def)

text \<open>
  Claim C3, amended. \<^verbatim>\<open>jobsStore.Create\<close> does not look at the phase of the worker.
  For every event with the given ID whose worker has a phase stored, whatever that phase
  is, whose worker has no jobs yet or holds its jobs in a document, and for every job
  name of the form \<^verbatim>\<open>[a-z0-9-]{1,63}\<close>: the job is stored under its name among the jobs
  of the worker, nil is returned and the phase of the worker stays what it was.
\<close>

theorem Create_whatever_worker_phase:
  assumes "FindOne c [(''id'', BStr ev)] = Some d"
    and "job_name n"
    and "get_path [''worker'', ''status'', ''phase''] d = Some phase"
    and "get_path [''worker'', ''jobs''] d = None \<or>
         (\<exists>js. get_path [''worker'', ''jobs''] d = Some (BDoc js))"
  shows "\<exists>c' d'. jobsStore_Create UpdateOne c ev n job = (None, c') \<and>
    FindOne c' [(''id'', BStr ev)] = Some d' \<and>
    get_path [''worker'', ''jobs'', n] d' = Some job \<and>
    get_path [''worker'', ''status'', ''phase''] d' = Some phase"
proof -
  note name = job_name_plain [OF assms(2)]
  have "\<exists>c' d' js'. jobsStore_Create UpdateOne c ev n job = (None, c') \<and>
    FindOne c' [(''id'', BStr ev)] = Some d' \<and>
    get_path [''worker'', ''jobs''] d' = Some (BDoc js') \<and> map_of js' n = Some job \<and>
    (\<forall>q'. diverge [''worker'', ''jobs'', n] q' \<longrightarrow> get_path q' d' = get_path q' d)"
  proof (cases "get_path [''worker'', ''jobs''] d")
    case None
    from assms(3) get_path_append [of "[''worker'']" "[''status'', ''phase'']" d]
    obtain w where w: "get_path [''worker''] d = Some w"
      "get_path [''status'', ''phase''] w = Some phase"
      by (auto split: option.splits)
    from w(2) obtain wd where wd: "w = BDoc wd" by (cases w) auto
    from None w(1) wd get_path_append [of "[''worker'']" "[''jobs'']" d]
    have "map_of wd ''jobs'' = None"
      by (auto split: option.splits)
    from Create_on_event_without_jobs [OF assms(1) name w(1) [unfolded wd] this, of job]
    show ?thesis
      by (elim exE conjE, intro exI [of _ "[(n, job)]"] exI conjI) simp_all
  next
    case (Some x)
    with assms(4) obtain js where js: "get_path [''worker'', ''jobs''] d = Some (BDoc js)"
      by auto
    from Create_on_event [OF assms(1) name js, of job]
    show ?thesis
      by (elim exE conjE, intro exI [of _ "AList.update n job js"] exI conjI)
        (simp_all add: AList.update_conv')
  qed
  then obtain c' d' js' where r: "jobsStore_Create UpdateOne c ev n job = (None, c')"
    "FindOne c' [(''id'', BStr ev)] = Some d'"
    "get_path [''worker'', ''jobs''] d' = Some (BDoc js')" "map_of js' n = Some job"
    "\<forall>q'. diverge [''worker'', ''jobs'', n] q' \<longrightarrow> get_path q' d' = get_path q' d"
    by blast
  have "get_path [''worker'', ''jobs'', n] d' = Some job"
    using r(3,4) name(3) get_path_append [of "[''worker'', ''jobs'']" "[n]" d'] by simp
  moreover have "get_path [''worker'', ''status'', ''phase''] d' = Some phase"
    using r(5) assms(3) by simp
  ultimately show ?thesis using r(1,2) by blast
qed

theorem Create_whatever_worker_phase_witness:
  "FindOne
     [BDoc [(''id'', BStr ''event-1''),
            (''worker'', BDoc [(''status'', BDoc [(''phase'', BStr ''SUCCEEDED'')]),
                               (''jobs'', BDoc [])])]]
     [(''id'', BStr ''event-1'')] =
     Some (BDoc [(''id'', BStr ''event-1''),
            (''worker'', BDoc [(''status'', BDoc [(''phase'', BStr ''SUCCEEDED'')]),
                               (''jobs'', BDoc [])])]) \<and>
   job_name ''build'' \<and>
   (\<exists>c' d'. jobsStore_Create UpdateOne
        [BDoc [(''id'', BStr ''event-1''),
            (''worker'', BDoc [(''status'', BDoc [(''phase'', BStr ''SUCCEEDED'')]),
                               (''jobs'', BDoc [])])]]
        ''event-1'' ''build'' (BDoc [(''spec'', BDoc [])]) = (None, c') \<and>
      FindOne c' [(''id'', BStr ''event-1'')] = Some d' \<and>
      get_path [''worker'', ''jobs'', ''build''] d' = Some (BDoc [(''spec'', BDoc [])]) \<and>
      get_path [''worker'', ''status'', ''phase''] d' = Some (BStr ''SUCCEEDED''))"
proof -
  let ?d = "BDoc [(''id'', BStr ''event-1''),
            (''worker'', BDoc [(''status'', BDoc [(''phase'', BStr ''SUCCEEDED'')]),
                               (''jobs'', BDoc [])])]"
  have a: "FindOne [?d] [(''id'', BStr ''event-1'')] = Some ?d"
    by (simp add: FindOne_def matches_id)
  have b: "job_name ''build''" by (simp add: job_name_def)
  have d: "get_path [''worker'', ''status'', ''phase''] ?d = Some (BStr ''SUCCEEDED'')"
    by simp
  have e: "get_path [''worker'', ''jobs''] ?d = None \<or>
      (\<exists>js. get_path [''worker'', ''jobs''] ?d = Some (BDoc js))" by simp
  from Create_whatever_worker_phase [OF a b d e, of "BDoc [(''spec'', BDoc [])]"] a b
  show ?thesis by simp
qed

text \<open>
  Claim C4, as the specification states it, says that creating a job under a name that
  the worker already has returns a conflict and does not replace the existing job.
  Here the worker of \<^verbatim>\<open>event-1\<close> has a job \<^verbatim>\<open>build\<close> with image alpine; creating
  \<^verbatim>\<open>build\<close> again with image debian returns nil and the stored job is the new one.
\<close>

theorem Create_replaces_job_counterexample:
  "jobsStore_Create UpdateOne
     [BDoc [(''id'', BStr ''event-1''),
            (''worker'', BDoc [(''status'', BDoc [(''phase'', BStr ''RUNNING'')]),
               (''jobs'', BDoc [(''build'',
                  BDoc [(''spec'', BDoc [(''image'', BStr ''alpine'')])])])])]]
     ''event-1'' ''build'' (BDoc [(''spec'', BDoc [(''image'', BStr ''debian'')])]) =
   (None,
     [BDoc [(''id'', BStr ''event-1''),
            (''worker'', BDoc [(''status'', BDoc [(''phase'', BStr ''RUNNING'')]),
               (''jobs'', BDoc [(''build'',
                  BDoc [(''spec'', BDoc [(''image'', BStr ''debian'')])])])])]]) \<and>
   BDoc [(''spec'', BDoc [(''image'', BStr ''debian'')])] \<noteq>
   BDoc [(''spec'', BDoc [(''image'', BStr ''alpine'')])]"
  by (simp add: jobsStore_Create_def UpdateOne_def field_path_def valid_field_path_def
      matches_def)

text \<open>
  Claim C4, amended. \<^verbatim>\<open>jobsStore.Create\<close> does not reject a second job of a name that
  the worker already has: it returns nil (no conflict) and puts the new job in the place
  of the existing one. The names of the jobs of the worker are the same as before, so
  a name still stands for one job only, and every job of another name is untouched.
  The name of the existing job is the name of a stored field, so it holds no NUL byte.
\<close>

theorem Create_replaces_job_of_same_name:
  assumes "FindOne c [(''id'', BStr ev)] = Some d"
    and "n \<noteq> []" and "CHR ''.'' \<notin> set n" and "CHR 0x00 \<notin> set n"
    and "get_path [''worker'', ''jobs''] d = Some (BDoc js)"
    and "map_of js n = Some old"
  shows "\<exists>c' d' js'. jobsStore_Create UpdateOne c ev n job = (None, c') \<and>
    FindOne c' [(''id'', BStr ev)] = Some d' \<and>
    get_path [''worker'', ''jobs''] d' = Some (BDoc js') \<and>
    map fst js' = map fst js \<and>
    map_of js' n = Some job \<and>
    (\<forall>m. m \<noteq> n \<longrightarrow> map_of js' m = map_of js m)"
proof -
  from Create_on_event [OF assms(1-5), of job]
  obtain c' d' where r: "jobsStore_Create UpdateOne c ev n job = (None, c')"
    "FindOne c' [(''id'', BStr ev)] = Some d'"
    "get_path [''worker'', ''jobs''] d' = Some (BDoc (AList.update n job js))"
    by blast
  from assms(6) have "n \<in> fst ` set js"
    by (metis domI dom_map_of_conv_image_fst)
  then have "map fst (AList.update n job js) = map fst js"
    by (simp add: AList.update_keys)
  with r show ?thesis
    by (intro exI [of _ c'] exI [of _ d'] exI [of _ "AList.update n job js"])
      (simp add: AList.update_conv')
qed

theorem Create_replaces_job_of_same_name_witness:
  "FindOne
     [BDoc [(''id'', BStr ''event-1''),
            (''worker'', BDoc [(''jobs'', BDoc [(''build'', BDoc [(''spec'', BStr ''old'')]),
                                                 (''test'', BDoc [(''spec'', BStr ''t'')])])])]]
     [(''id'', BStr ''event-1'')] =
     Some (BDoc [(''id'', BStr ''event-1''),
            (''worker'', BDoc [(''jobs'', BDoc [(''build'', BDoc [(''spec'', BStr ''old'')]),
                                                 (''test'', BDoc [(''spec'', BStr ''t'')])])])]) \<and>
   map_of [(''build'', BDoc [(''spec'', BStr ''old'')]), (''test'', BDoc [(''spec'', BStr ''t'')])]
     ''build'' = Some (BDoc [(''spec'', BStr ''old'')]) \<and>
   (\<exists>c' d' js'. jobsStore_Create UpdateOne
        [BDoc [(''id'', BStr ''event-1''),
            (''worker'', BDoc [(''jobs'', BDoc [(''build'', BDoc [(''spec'', BStr ''old'')]),
                                                 (''test'', BDoc [(''spec'', BStr ''t'')])])])]]
        ''event-1'' ''build'' (BDoc [(''spec'', BStr ''new'')]) = (None, c') \<and>
      FindOne c' [(''id'', BStr ''event-1'')] = Some d' \<and>
      get_path [''worker'', ''jobs''] d' = Some (BDoc js') \<and>
      map fst js' = [''build'', ''test''] \<and>
      map_of js' ''build'' = Some (BDoc [(''spec'', BStr ''new'')]) \<and>
      map_of js' ''test'' = Some (BDoc [(''spec'', BStr ''t'')]))"
proof -
  let ?js = "[(''build'', BDoc [(''spec'', BStr ''old'')]), (''test'', BDoc [(''spec'', BStr ''t'')])]"
  let ?d = "BDoc [(''id'', BStr ''event-1''), (''worker'', BDoc [(''jobs'', BDoc ?js)])]"
  have a: "FindOne [?d] [(''id'', BStr ''event-1'')] = Some ?d"
    by (simp add: FindOne_def matches_id)
  have b: "''build'' \<noteq> []" and c: "CHR ''.'' \<notin> set ''build''"
    and z: "CHR 0x00 \<notin> set ''build''" by simp_all
  have d: "get_path [''worker'', ''jobs''] ?d = Some (BDoc ?js)" by simp
  have e: "map_of ?js ''build'' = Some (BDoc [(''spec'', BStr ''old'')])" by simp
  from Create_replaces_job_of_same_name [OF a b c z d e, of "BDoc [(''spec'', BStr ''new'')]"]
  obtain c' d' js' where r:
    "jobsStore_Create UpdateOne [?d] ''event-1'' ''build'' (BDoc [(''spec'', BStr ''new'')]) =
       (None, c')"
    "FindOne c' [(''id'', BStr ''event-1'')] = Some d'"
    "get_path [''worker'', ''jobs''] d' = Some (BDoc js')"
    "map fst js' = map fst ?js"
    "map_of js' ''build'' = Some (BDoc [(''spec'', BStr ''new'')])"
    "\<forall>m. m \<noteq> ''build'' \<longrightarrow> map_of js' m = map_of ?js m"
    by blast
  from r(6) have "map_of js' ''test'' = Some (BDoc [(''spec'', BStr ''t'')])" by simp
  with r a e show ?thesis
    by (intro conjI exI [of _ c'] exI [of _ d'] exI [of _ js']) simp_all
qed

section \<open>Events that are not there\<close>

text \<open>
  Claim C5, as the specification states it, says that for every event ID that matches
  no stored event document both operations return a not-found error and no error of
  another kind. Here no event has the ID \<^verbatim>\<open>event-2\<close> and the job name is empty: the
  server refuses the update path for its empty field name, and both operations return
  that error of the driver, wrapped.
\<close>

theorem event_not_found_counterexample:
  "FindOne [BDoc [(''id'', BStr ''event-1''), (''worker'', BDoc [])]]
     [(''id'', BStr ''event-2'')] = None \<and>
   jobsStore_Create UpdateOne [BDoc [(''id'', BStr ''event-1''), (''worker'', BDoc [])]]
     ''event-2'' [] (BDoc [(''spec'', BDoc [])]) =
     (Some (Wrapf (WriteException ''empty field name in update path'')
              ''error updating spec of event %q job %q'' [''event-2'', []]),
      [BDoc [(''id'', BStr ''event-1''), (''worker'', BDoc [])]]) \<and>
   jobsStore_UpdateStatus UpdateOne [BDoc [(''id'', BStr ''event-1''), (''worker'', BDoc [])]]
     ''event-2'' [] (BDoc [(''phase'', BStr ''RUNNING'')]) =
     (Some (Wrapf (WriteException ''empty field name in update path'')
              ''error updating status of event %q worker job %q'' [''event-2'', []]),
      [BDoc [(''id'', BStr ''event-1''), (''worker'', BDoc [])]])"
  by (simp add: FindOne_def matches_id jobsStore_Create_def jobsStore_UpdateStatus_def
      UpdateOne_def field_path_def valid_field_path_def)

text \<open>
  Claim C5, amended. For every event ID that matches no stored event document and every
  job name of the form \<^verbatim>\<open>[a-z0-9-]{1,63}\<close>, \<^verbatim>\<open>jobsStore.Create\<close> returns a not-found
  error of type "Event" and \<^verbatim>\<open>jobsStore.UpdateStatus\<close> one of type "Job", both with the
  event ID, and the collection stays as it is.
\<close>

theorem event_not_found:
  assumes "FindOne c [(''id'', BStr ev)] = None"
    and "job_name n"
  shows "jobsStore_Create UpdateOne c ev n job =
           (Some (ErrNotFound ''Event'' ev), c) \<and>
         jobsStore_UpdateStatus UpdateOne c ev n st =
           (Some (ErrNotFound ''Job'' ev), c)"
proof -
  note name = job_name_plain [OF assms(2)]
  have valid: "valid_field_path (field_path n)"
    using name by (simp add: field_path_plain valid_field_path_def)
  have k1: "cstring (''worker.jobs.'' @ n)" and k2: "cstring (''worker.jobs.'' @ n @ ''.status'')"
    using name(3) by simp_all
  show ?thesis
    unfolding jobsStore_Create_def jobsStore_UpdateStatus_def
      UpdateOne_no_match [OF assms(1) k1 valid_job_path [OF valid]]
      UpdateOne_no_match [OF assms(1) k2 valid_job_status_path [OF valid]]
    by simp
qed

theorem event_not_found_witness:
  "FindOne [BDoc [(''id'', BStr ''event-1''), (''worker'', BDoc [])]]
     [(''id'', BStr ''event-2'')] = None \<and>
   job_name ''build'' \<and>
   jobsStore_Create UpdateOne [BDoc [(''id'', BStr ''event-1''), (''worker'', BDoc [])]]
     ''event-2'' ''build'' (BDoc [(''spec'', BDoc [])]) =
     (Some (ErrNotFound ''Event'' ''event-2''),
      [BDoc [(''id'', BStr ''event-1''), (''worker'', BDoc [])]]) \<and>
   jobsStore_UpdateStatus UpdateOne [BDoc [(''id'', BStr ''event-1''), (''worker'', BDoc [])]]
     ''event-2'' ''build'' (BDoc [(''phase'', BStr ''RUNNING'')]) =
     (Some (ErrNotFound ''Job'' ''event-2''),
      [BDoc [(''id'', BStr ''event-1''), (''worker'', BDoc [])]])"
proof -
  have a: "FindOne [BDoc [(''id'', BStr ''event-1''), (''worker'', BDoc [])]]
     [(''id'', BStr ''event-2'')] = None"
    by (simp add: FindOne_def matches_id)
  have b: "job_name ''build''"
    by (simp add: job_name_def)
  from event_not_found [OF a b] a b show ?thesis by simp
qed

text \<open>
  Claim C10. When no event document matches the event ID (the collection reports no
  matched document), the not-found error of \<^verbatim>\<open>jobsStore.UpdateStatus\<close> has type "Job"
  and carries the event ID, whatever the job name is: so for every collection that
  answers the call with no match, and so in the collection of documents for every job
  name of the form \<^verbatim>\<open>[a-z0-9-]{1,63}\<close>. When an event matches and its worker has no job
  of the given name, nothing checks that: the call returns nil and the status is
  written, which creates a job document that holds the status alone. The one call that
  the store makes to its collection is that update, selected by the event ID.
\<close>

theorem UpdateStatus_not_found_and_unchecked_job:
  "(collection_UpdateOne s [(''id'', BStr ev)]
        (SetOp [(''worker.jobs.'' @ n @ ''.status'', st)]) = (Inr res, s') \<and>
    MatchedCount res = 0 \<longrightarrow>
      jobsStore_UpdateStatus collection_UpdateOne s ev n st =
        (Some (ErrNotFound ''Job'' ev), s')) \<and>
   (FindOne c [(''id'', BStr ev)] = None \<and> job_name n \<longrightarrow>
      jobsStore_UpdateStatus UpdateOne c ev n st = (Some (ErrNotFound ''Job'' ev), c)) \<and>
   (FindOne c [(''id'', BStr ev)] = Some d \<and> job_name n \<and>
    get_path [''worker'', ''jobs''] d = Some (BDoc js) \<and> map_of js n = None \<longrightarrow>
      (\<exists>c' d'. jobsStore_UpdateStatus UpdateOne c ev n st = (None, c') \<and>
         FindOne c' [(''id'', BStr ev)] = Some d' \<and>
         get_path [''worker'', ''jobs'', n] d' = Some (BDoc [(''status'', st)]))) \<and>
   snd (jobsStore_UpdateStatus recordingCollection_UpdateOne calls ev n st) =
     calls @ [([(''id'', BStr ev)], SetOp [(''worker.jobs.'' @ n @ ''.status'', st)])]"
proof (intro conjI impI)
  assume "collection_UpdateOne s [(''id'', BStr ev)]
        (SetOp [(''worker.jobs.'' @ n @ ''.status'', st)]) = (Inr res, s') \<and>
    MatchedCount res = 0"
  then show "jobsStore_UpdateStatus collection_UpdateOne s ev n st =
        (Some (ErrNotFound ''Job'' ev), s')"
    unfolding jobsStore_UpdateStatus_def by simp
next
  assume h: "FindOne c [(''id'', BStr ev)] = None \<and> job_name n"
  then have name: "n \<noteq> []" "CHR ''.'' \<notin> set n" "CHR 0x00 \<notin> set n"
    using job_name_plain by blast+
  have valid: "valid_field_path (field_path n)"
    using name by (simp add: field_path_plain valid_field_path_def)
  have key: "cstring (''worker.jobs.'' @ n @ ''.status'')"
    using name(3) by simp
  from h have "UpdateOne c [(''id'', BStr ev)] (SetOp [(''worker.jobs.'' @ n @ ''.status'', st)]) =
      (Inr \<lparr>MatchedCount = 0, ModifiedCount = 0\<rparr>, c)"
    by (intro UpdateOne_no_match key valid_job_status_path [OF valid]) simp
  then show "jobsStore_UpdateStatus UpdateOne c ev n st = (Some (ErrNotFound ''Job'' ev), c)"
    unfolding jobsStore_UpdateStatus_def by simp
next
  assume h: "FindOne c [(''id'', BStr ev)] = Some d \<and> job_name n \<and>
    get_path [''worker'', ''jobs''] d = Some (BDoc js) \<and> map_of js n = None"
  then have name: "n \<noteq> []" "CHR ''.'' \<notin> set n" "CHR 0x00 \<notin> set n"
    using job_name_plain by blast+
  let ?js' = "BDoc (AList.update n (BDoc [(''status'', st)]) js)"
  have "set_path [n, ''status''] st (BDoc js) = Some ?js'"
    using h by simp
  from UpdateStatus_on_event [OF _ name _ this, of c ev d] h
  obtain c' d' where r: "jobsStore_UpdateStatus UpdateOne c ev n st = (None, c')"
    "FindOne c' [(''id'', BStr ev)] = Some d'"
    "get_path [''worker'', ''jobs''] d' = Some ?js'"
    by blast
  have "get_path [''worker'', ''jobs'', n] d' = Some (BDoc [(''status'', st)])"
    using r(3) name(3) get_path_append [of "[''worker'', ''jobs'']" "[n]" d']
    by (simp add: AList.update_conv')
  with r show "\<exists>c' d'. jobsStore_UpdateStatus UpdateOne c ev n st = (None, c') \<and>
         FindOne c' [(''id'', BStr ev)] = Some d' \<and>
         get_path [''worker'', ''jobs'', n] d' = Some (BDoc [(''status'', st)])"
    by blast
next
  show "snd (jobsStore_UpdateStatus recordingCollection_UpdateOne calls ev n st) =
     calls @ [([(''id'', BStr ev)], SetOp [(''worker.jobs.'' @ n @ ''.status'', st)])]"
    by (simp add: jobsStore_UpdateStatus_def recordingCollection_UpdateOne_def)
qed

theorem UpdateStatus_not_found_and_unchecked_job_witness:
  "mockCollection_UpdateOne (Inr \<lparr>MatchedCount = 0, ModifiedCount = 0\<rparr>) ()
     [(''id'', BStr ''event-2'')]
     (SetOp [(''worker.jobs.'' @ ''build'' @ ''.status'', BDoc [(''phase'', BStr ''RUNNING'')])]) =
     (Inr \<lparr>MatchedCount = 0, ModifiedCount = 0\<rparr>, ()) \<and>
   jobsStore_UpdateStatus
     (mockCollection_UpdateOne (Inr \<lparr>MatchedCount = 0, ModifiedCount = 0\<rparr>)) ()
     ''event-2'' ''build'' (BDoc [(''phase'', BStr ''RUNNING'')]) =
     (Some (ErrNotFound ''Job'' ''event-2''), ()) \<and>
   FindOne [BDoc [(''id'', BStr ''event-1''), (''worker'', BDoc [(''jobs'', BDoc [])])]]
     [(''id'', BStr ''event-2'')] = None \<and>
   job_name ''build'' \<and>
   jobsStore_UpdateStatus UpdateOne
     [BDoc [(''id'', BStr ''event-1''), (''worker'', BDoc [(''jobs'', BDoc [])])]]
     ''event-2'' ''build'' (BDoc [(''phase'', BStr ''RUNNING'')]) =
     (Some (ErrNotFound ''Job'' ''event-2''),
      [BDoc [(''id'', BStr ''event-1''), (''worker'', BDoc [(''jobs'', BDoc [])])]]) \<and>
   ''event-2'' \<noteq> ''build'' \<and>
   FindOne [BDoc [(''id'', BStr ''event-1''), (''worker'', BDoc [(''jobs'', BDoc [])])]]
     [(''id'', BStr ''event-1'')] =
     Some (BDoc [(''id'', BStr ''event-1''), (''worker'', BDoc [(''jobs'', BDoc [])])]) \<and>
   map_of ([] :: (string \<times> bson) list) ''build'' = None \<and>
   (\<exists>c' d'. jobsStore_UpdateStatus UpdateOne
        [BDoc [(''id'', BStr ''event-1''), (''worker'', BDoc [(''jobs'', BDoc [])])]]
        ''event-1'' ''build'' (BDoc [(''phase'', BStr ''RUNNING'')]) = (None, c') \<and>
      FindOne c' [(''id'', BStr ''event-1'')] = Some d' \<and>
      get_path [''worker'', ''jobs'', ''build''] d' =
        Some (BDoc [(''status'', BDoc [(''phase'', BStr ''RUNNING'')])]))"
proof -
  let ?d = "BDoc [(''id'', BStr ''event-1''), (''worker'', BDoc [(''jobs'', BDoc [])])]"
  let ?st = "BDoc [(''phase'', BStr ''RUNNING'')]"
  let ?none = "\<lparr>MatchedCount = 0, ModifiedCount = 0\<rparr>"
  let ?mock = "mockCollection_UpdateOne (Inr ?none)"
  have m: "?mock () [(''id'', BStr ''event-2'')]
      (SetOp [(''worker.jobs.'' @ ''build'' @ ''.status'', ?st)]) = (Inr ?none, ()) \<and>
      MatchedCount ?none = 0"
    by (simp add: mockCollection_UpdateOne_def)
  have a: "FindOne [?d] [(''id'', BStr ''event-2'')] = None"
    by (simp add: FindOne_def matches_id)
  have b: "job_name ''build''"
    by (simp add: job_name_def)
  have c: "FindOne [?d] [(''id'', BStr ''event-1'')] = Some ?d"
    by (simp add: FindOne_def matches_id)
  have d: "get_path [''worker'', ''jobs''] ?d = Some (BDoc []) \<and>
    map_of ([] :: (string \<times> bson) list) ''build'' = None"
    by simp
  from UpdateStatus_not_found_and_unchecked_job
      [where collection_UpdateOne = ?mock and s = "()" and ev = "''event-2''"
        and n = "''build''" and st = ?st and res = ?none and s' = "()", THEN conjunct1] m
  have 0: "jobsStore_UpdateStatus ?mock () ''event-2'' ''build'' ?st =
      (Some (ErrNotFound ''Job'' ''event-2''), ())"
    by blast
  from UpdateStatus_not_found_and_unchecked_job
      [where c = "[?d]" and ev = "''event-2''" and n = "''build''" and st = ?st,
        THEN conjunct2, THEN conjunct1] a b
  have 1: "jobsStore_UpdateStatus UpdateOne [?d] ''event-2'' ''build'' ?st =
      (Some (ErrNotFound ''Job'' ''event-2''), [?d])"
    by blast
  from UpdateStatus_not_found_and_unchecked_job
      [where c = "[?d]" and ev = "''event-1''" and n = "''build''" and st = ?st
        and d = ?d and js = "[]", THEN conjunct2, THEN conjunct2, THEN conjunct1] b c d
  have 2: "\<exists>c' d'. jobsStore_UpdateStatus UpdateOne [?d] ''event-1'' ''build'' ?st = (None, c') \<and>
      FindOne c' [(''id'', BStr ''event-1'')] = Some d' \<and>
      get_path [''worker'', ''jobs'', ''build''] d' = Some (BDoc [(''status'', ?st)])"
    by blast
  from m a b c 0 1 2 show ?thesis by simp
qed

section \<open>Locking and unlocking users\<close>

lemma usersStore_on_user:
  assumes found: "FindOne c [(''id'', BStr uid)] = Some d"
  shows "\<exists>res c' d'.
    UpdateOne c [(''id'', BStr uid)] (SetOp [(''locked'', v)]) = (Inr res, c') \<and>
    MatchedCount res = 1 \<and>
    FindOne c' [(''id'', BStr uid)] = Some d' \<and>
    get_path [''locked''] d' = Some v \<and>
    (\<exists>pre post. c = pre @ d # post \<and> c' = pre @ d' # post)"
proof -
  from found have "matches [(''id'', BStr uid)] d"
    by (auto simp: FindOne_def find_Some_iff)
  then obtain fs where d: "d = BDoc fs"
    by (cases d) (auto simp: matches_id)
  have path: "field_path ''locked'' = [] @ [''locked'']"
    by (simp add: field_path_locked)
  have key: "cstring ''locked''" by simp
  have valid: "valid_field_path ([] @ [''locked''])"
    by (simp add: valid_field_path_def)
  have div: "diverge ([] @ [''locked'']) [''id'']" by simp
  have sub: "get_path [] d = Some d" by simp
  have "set_path [''locked''] v d = Some (BDoc (AList.update ''locked'' v fs))"
    by (simp add: d)
  from UpdateOne_by_id [OF found key path valid div sub this]
  obtain res c' d' where r:
    "UpdateOne c [(''id'', BStr uid)] (SetOp [(''locked'', v)]) = (Inr res, c')"
    "MatchedCount res = 1"
    "FindOne c' [(''id'', BStr uid)] = Some d'"
    "get_path [] d' = Some (BDoc (AList.update ''locked'' v fs))"
    "\<exists>pre post. c = pre @ d # post \<and> c' = pre @ d' # post"
    by blast
  from r(4) have "get_path [''locked''] d' = Some v"
    by (simp add: AList.update_conv')
  with r show ?thesis by blast
qed

text \<open>
  The three cases of \<^verbatim>\<open>TestUsersStoreLock\<close> and of \<^verbatim>\<open>TestUsersStoreUnLock\<close>: no user
  matched, an error of the driver, and success.
\<close>

lemma TestUsersStoreLock:
  "fst (usersStore_Lock
          (mockCollection_UpdateOne (Inr \<lparr>MatchedCount = 0, ModifiedCount = 0\<rparr>)) () uid) =
     Some (ErrNotFound ''User'' uid)"
  "fst (usersStore_Lock
          (mockCollection_UpdateOne (Inl (ErrorString ''something went wrong''))) () uid) =
     Some (Wrapf (ErrorString ''something went wrong'') ''error updating user %q'' [uid])"
  "fst (usersStore_Lock
          (mockCollection_UpdateOne (Inr \<lparr>MatchedCount = 1, ModifiedCount = 0\<rparr>)) () uid) =
     None"
  by (simp_all add: usersStore_Lock_def mockCollection_UpdateOne_def)

lemma TestUsersStoreUnLock:
  "fst (usersStore_Unlock
          (mockCollection_UpdateOne (Inr \<lparr>MatchedCount = 0, ModifiedCount = 0\<rparr>)) () uid) =
     Some (ErrNotFound ''User'' uid)"
  "fst (usersStore_Unlock
          (mockCollection_UpdateOne (Inl (ErrorString ''something went wrong''))) () uid) =
     Some (Wrapf (ErrorString ''something went wrong'') ''error updating user %q'' [uid])"
  "fst (usersStore_Unlock
          (mockCollection_UpdateOne (Inr \<lparr>MatchedCount = 1, ModifiedCount = 0\<rparr>)) () uid) =
     None"
  by (simp_all add: usersStore_Unlock_def mockCollection_UpdateOne_def)

text \<open>
  Claim C7. For every user ID with no matching user document, \<^verbatim>\<open>usersStore.Lock\<close>
  and \<^verbatim>\<open>usersStore.Unlock\<close> each return a not-found error with type "User" and that
  ID (and leave the collection alone); when a matching document exists, both succeed.
\<close>

theorem lock_unlock_by_user_document:
  "(FindOne c [(''id'', BStr uid)] = None \<longrightarrow>
      usersStore_Lock UpdateOne c uid = (Some (ErrNotFound ''User'' uid), c) \<and>
      usersStore_Unlock UpdateOne c uid = (Some (ErrNotFound ''User'' uid), c)) \<and>
   (FindOne c [(''id'', BStr uid)] = Some d \<longrightarrow>
      fst (usersStore_Lock UpdateOne c uid) = None \<and>
      fst (usersStore_Unlock UpdateOne c uid) = None)"
proof (intro conjI impI)
  assume h: "FindOne c [(''id'', BStr uid)] = None"
  have key: "cstring ''locked''" by simp
  have valid: "valid_field_path (field_path ''locked'')"
    by (simp add: field_path_locked valid_field_path_def)
  show "usersStore_Lock UpdateOne c uid = (Some (ErrNotFound ''User'' uid), c)"
    unfolding usersStore_Lock_def UpdateOne_no_match [OF h key valid] by simp
  show "usersStore_Unlock UpdateOne c uid = (Some (ErrNotFound ''User'' uid), c)"
    unfolding usersStore_Unlock_def UpdateOne_no_match [OF h key valid] by simp
next
  assume h: "FindOne c [(''id'', BStr uid)] = Some d"
  from usersStore_on_user [OF h, of "BBool True"]
  show "fst (usersStore_Lock UpdateOne c uid) = None"
    unfolding usersStore_Lock_def by auto
next
  assume h: "FindOne c [(''id'', BStr uid)] = Some d"
  from usersStore_on_user [OF h, of "BBool False"]
  show "fst (usersStore_Unlock UpdateOne c uid) = None"
    unfolding usersStore_Unlock_def by auto
qed

theorem lock_unlock_by_user_document_witness:
  "FindOne [BDoc [(''id'', BStr ''tony@starkindustries.com'')]]
     [(''id'', BStr ''pepper@starkindustries.com'')] = None \<and>
   usersStore_Lock UpdateOne [BDoc [(''id'', BStr ''tony@starkindustries.com'')]]
     ''pepper@starkindustries.com'' =
     (Some (ErrNotFound ''User'' ''pepper@starkindustries.com''),
      [BDoc [(''id'', BStr ''tony@starkindustries.com'')]]) \<and>
   usersStore_Unlock UpdateOne [BDoc [(''id'', BStr ''tony@starkindustries.com'')]]
     ''pepper@starkindustries.com'' =
     (Some (ErrNotFound ''User'' ''pepper@starkindustries.com''),
      [BDoc [(''id'', BStr ''tony@starkindustries.com'')]]) \<and>
   FindOne [BDoc [(''id'', BStr ''tony@starkindustries.com'')]]
     [(''id'', BStr ''tony@starkindustries.com'')] =
     Some (BDoc [(''id'', BStr ''tony@starkindustries.com'')]) \<and>
   fst (usersStore_Lock UpdateOne [BDoc [(''id'', BStr ''tony@starkindustries.com'')]]
     ''tony@starkindustries.com'') = None \<and>
   fst (usersStore_Unlock UpdateOne [BDoc [(''id'', BStr ''tony@starkindustries.com'')]]
     ''tony@starkindustries.com'') = None"
proof -
  let ?d = "BDoc [(''id'', BStr ''tony@starkindustries.com'')]"
  have a: "FindOne [?d] [(''id'', BStr ''pepper@starkindustries.com'')] = None"
    by (simp add: FindOne_def matches_id)
  have b: "FindOne [?d] [(''id'', BStr ''tony@starkindustries.com'')] = Some ?d"
    by (simp add: FindOne_def matches_id)
  from lock_unlock_by_user_document
      [of "[?d]" "''pepper@starkindustries.com''" ?d, THEN conjunct1] a
    lock_unlock_by_user_document
      [of "[?d]" "''tony@starkindustries.com''" ?d, THEN conjunct2] b
  show ?thesis by blast
qed

section \<open>Authorization in the role assignments service\<close>

text \<open>
  Claim C6. Every operation of the role assignments service (Grant, List, Revoke) makes
  the authorization check before any access to a store: when the check fails, the
  operation returns the authorization error and the log of store accesses is what it
  was, whatever the operation would have done in the users, service-accounts and
  role-assignments stores.
\<close>

theorem unauthorized_touches_no_store:
  "(authorize RoleAdmin = Some ErrAuthorization \<longrightarrow>
      roleAssignmentsService_Grant authorize grant_in_stores ra log =
        (Returns (Some ErrAuthorization), log) \<and>
      roleAssignmentsService_Revoke authorize revoke_in_stores ra log =
        (Returns (Some ErrAuthorization), log)) \<and>
   (authorize RoleReader = Some ErrAuthorization \<longrightarrow>
      roleAssignmentsService_List authorize list_in_stores log =
        (Returns (Inl ErrAuthorization), log))"
  by (simp add: roleAssignmentsService_Grant_def roleAssignmentsService_Revoke_def
      roleAssignmentsService_List_def)

theorem unauthorized_touches_no_store_witness:
  "NeverAuthorize RoleAdmin = Some ErrAuthorization \<and>
   NeverAuthorize RoleReader = Some ErrAuthorization \<and>
   roleAssignmentsService_Grant NeverAuthorize
       (\<lambda>ra log. (Panics, log @ [usersStore_access]))
       \<lparr>Role = RoleProjectCreator, PrincipalType = PrincipalTypeUser,
          PrincipalID = ''foo''\<rparr> [] =
     (Returns (Some ErrAuthorization), []) \<and>
   roleAssignmentsService_Revoke NeverAuthorize
       (\<lambda>ra log. (Panics, log @ [serviceAccountsStore_access]))
       \<lparr>Role = RoleProjectCreator, PrincipalType = PrincipalTypeServiceAccount,
          PrincipalID = ''foo''\<rparr> [] =
     (Returns (Some ErrAuthorization), []) \<and>
   roleAssignmentsService_List NeverAuthorize
       (\<lambda>log. (Panics, log @ [roleAssignmentsStore_access])) [] =
     (Returns (Inl ErrAuthorization), [])"
  using
    unauthorized_touches_no_store
      [of NeverAuthorize "\<lambda>ra log. (Panics, log @ [usersStore_access])"
        "\<lparr>Role = RoleProjectCreator, PrincipalType = PrincipalTypeUser,
            PrincipalID = ''foo''\<rparr>" "[]"
        "\<lambda>ra log. (Panics, log @ [serviceAccountsStore_access])"
        "\<lambda>log. (Panics, log @ [roleAssignmentsStore_access])"]
    unauthorized_touches_no_store
      [of NeverAuthorize "\<lambda>ra log. (Panics, log @ [serviceAccountsStore_access])"
        "\<lparr>Role = RoleProjectCreator, PrincipalType = PrincipalTypeServiceAccount,
            PrincipalID = ''foo''\<rparr>" "[]"
        "\<lambda>ra log. (Panics, log @ [serviceAccountsStore_access])"
        "\<lambda>log. (Panics, log @ [roleAssignmentsStore_access])"]
  by (simp add: NeverAuthorize_def)

section \<open>The principal on the context\<close>

lemma Value_never_augmented: "\<not> augmented ctx \<Longrightarrow> Value ctx principalContextKey = NilValue"
  by (induction ctx) auto

lemma nil_principal_panics:
  "PrincipalFromContext (ContextWithPrincipal ctx None) = Inl interface_is_nil"
  by (simp add: PrincipalFromContext_def ContextWithPrincipal_def)

text \<open>
  Claim C8. Carrying the principal on the request context round-trips: for every
  context and every principal \<open>p\<close>, reading the principal back from the context that
  \<^verbatim>\<open>ContextWithPrincipal\<close> made returns exactly \<open>p\<close> (and does not panic). A principal here
  is a value that implements the interface, of any type; the nil interface is no
  principal.
\<close>

theorem principal_round_trip:
  "PrincipalFromContext (ContextWithPrincipal ctx (Some p)) = Inr p"
  by (simp add: PrincipalFromContext_def ContextWithPrincipal_def)

text \<open>
  Claim C9. For every context that was never augmented with a principal, reading the
  principal panics: the lookup gives nil and the unchecked type assertion on nil is a
  runtime failure, not a nil or error result.
\<close>

theorem no_principal_panics:
  "\<not> augmented ctx \<Longrightarrow> PrincipalFromContext ctx = Inl interface_is_nil"
  by (simp add: PrincipalFromContext_def Value_never_augmented)

theorem no_principal_panics_witness:
  "\<not> augmented (WithCancel (WithValue Background (other_key ''request-id'')
        (OtherValue ''42'')) :: named_principal Context) \<and>
   PrincipalFromContext (WithCancel (WithValue Background (other_key ''request-id'')
        (OtherValue ''42'')) :: named_principal Context) = Inl interface_is_nil"
  using no_principal_panics
    [of "WithCancel (WithValue Background (other_key ''request-id'') (OtherValue ''42''))
          :: named_principal Context"]
  by simp

section \<open>The roles of the named principals\<close>

text \<open>
  Claim C2, as the specification states it, says that the scheduler holds only the
  scheduler role, the observer only the observer role and a worker only the worker role
  of its event. Each of them holds the reader role as well, so the sets of roles are
  not the singletons of the claim.
\<close>

theorem reserved_roles_counterexample:
  "RoleReader \<in> set (Roles scheduler) \<and>
   set (Roles scheduler) \<noteq> {RoleScheduler} \<and>
   set (Roles observer) \<noteq> {RoleObserver} \<and>
   set (Roles (a_worker (worker ''event-1''))) \<noteq> {RoleWorker ''event-1''}"
  by (auto simp: schedulerPrincipal_Roles_def observerPrincipal_Roles_def
      workerPrincipal_Roles_def worker_def)

text \<open>
  Claim C2, amended. The roles of every reserved principal are a constant of the
  program: root holds the admin and reader roles of the system, the roles of event
  creator, project admin, project developer and project user in the global scope, and
  the role of project creator; the scheduler holds the reader role and the scheduler
  role and nothing else; the observer holds the reader role and the observer role and
  nothing else; the worker of an event holds the reader role and the worker role
  scoped to that event ID and nothing else.
\<close>

theorem reserved_roles:
  "Roles root =
     [RoleAdmin, RoleReader, RoleEventCreator ''*'', RoleProjectAdmin ''*'',
      RoleProjectCreator, RoleProjectDeveloper ''*'', RoleProjectUser ''*''] \<and>
   set (Roles scheduler) = {RoleReader, RoleScheduler} \<and>
   set (Roles observer) = {RoleReader, RoleObserver} \<and>
   set (Roles (a_worker (worker ev))) = {RoleReader, RoleWorker ev}"
  by (simp add: rootPrincipal_Roles_def RoleScopeGlobal_def schedulerPrincipal_Roles_def
      observerPrincipal_Roles_def workerPrincipal_Roles_def worker_def)

end
